theory Spec2Isabelle
  imports Main "HOL-Library.AList"
begin

section \<open>Team boards: the in-memory store of \<^verbatim>\<open>streamlit_app.py\<close>\<close>

text \<open>
  The program keeps six containers in the Streamlit session: four dictionaries
  (\<^verbatim>\<open>team_members\<close>, \<^verbatim>\<open>boards\<close>, \<^verbatim>\<open>groups\<close>, \<^verbatim>\<open>items\<close>, each from an id to
  a record) and two sets of pairs (\<^verbatim>\<open>item_assignments\<close>, \<^verbatim>\<open>item_dependencies\<close>).
  A Python dictionary iterates in insertion order, so a table is an association list:
  \<^verbatim>\<open>d[k] = v\<close> is \<open>AList.update\<close> (replace in place, else append), \<^verbatim>\<open>d.get(k)\<close> is
  \<open>map_of\<close>, \<^verbatim>\<open>d.pop(k, None)\<close> is \<open>AList.delete\<close>. A Python set has no
  iteration order to rely on, so a relation is a HOL set.

  Ids are the strings \<^verbatim>\<open>str(uuid4())\<close>. A \<^verbatim>\<open>datetime.date\<close> is its day number (an
  integer): differences of dates are differences of day numbers, \<^verbatim>\<open>.days\<close> reads them,
  and a date is always truthy, so \<^verbatim>\<open>a or b\<close> on optional dates is "the first present".
\<close>

type_synonym date = int

record member =
  m_id :: string
  m_name :: string
  m_email :: string

record board =
  b_id :: string
  b_name :: string
  b_description :: string

record group =
  g_id :: string
  g_board_id :: string
  g_name :: string
  g_position :: int

record item =
  item_id :: string
  board_id :: string
  group_id :: string
  title :: string
  description :: string
  status :: string
  start_date :: "date option"
  due_date :: "date option"
  timeline_start :: "date option"
  timeline_end :: "date option"
  created_by :: "string option"

record session_state =
  team_members :: "(string \<times> member) list"
  boards :: "(string \<times> board) list"
  groups :: "(string \<times> group) list"
  items :: "(string \<times> item) list"
  item_assignments :: "(string \<times> string) set"
  item_dependencies :: "(string \<times> string) set"
  current_user_id :: "string option"
  current_board_id :: "string option"

subsection \<open>Helpers for in-memory operations (lines 61--99)\<close>

text \<open>
  \<^verbatim>\<open>uuid4()\<close> is the only source of ids; the model takes the fresh id as an argument.
  None of these helpers looks an id up before it writes.
\<close>

definition add_member :: "session_state \<Rightarrow> string \<Rightarrow> string \<Rightarrow> string \<Rightarrow> session_state \<times> string" where
  "add_member ss uid nm em =
     (ss\<lparr>team_members := AList.update uid \<lparr>m_id = uid, m_name = nm, m_email = em\<rparr> (team_members ss)\<rparr>, uid)"

definition add_board :: "session_state \<Rightarrow> string \<Rightarrow> string \<Rightarrow> string \<Rightarrow> session_state \<times> string" where
  "add_board ss bid nm desc =
     (ss\<lparr>boards := AList.update bid \<lparr>b_id = bid, b_name = nm, b_description = desc\<rparr> (boards ss)\<rparr>, bid)"

definition add_group :: "session_state \<Rightarrow> string \<Rightarrow> string \<Rightarrow> string \<Rightarrow> int \<Rightarrow> session_state \<times> string" where
  "add_group ss gid bid nm position =
     (ss\<lparr>groups := AList.update gid
         \<lparr>g_id = gid, g_board_id = bid, g_name = nm, g_position = position\<rparr> (groups ss)\<rparr>, gid)"

definition add_item ::
  "session_state \<Rightarrow> string \<Rightarrow> string \<Rightarrow> string \<Rightarrow> string \<Rightarrow> string \<Rightarrow> string \<Rightarrow>
   date option \<Rightarrow> date option \<Rightarrow> date option \<Rightarrow> date option \<Rightarrow> string option \<Rightarrow> session_state \<times> string" where
  "add_item ss iid bid gid ttl desc st start due tstart tend cby =
     (ss\<lparr>items := AList.update iid
         \<lparr>item_id = iid, board_id = bid, group_id = gid, title = ttl, description = desc,
          status = st, start_date = start, due_date = due,
          timeline_start = tstart, timeline_end = tend, created_by = cby\<rparr> (items ss)\<rparr>, iid)"

definition assign :: "session_state \<Rightarrow> string \<Rightarrow> string \<Rightarrow> session_state" where
  "assign ss iid uid = ss\<lparr>item_assignments := insert (iid, uid) (item_assignments ss)\<rparr>"

definition unassign :: "session_state \<Rightarrow> string \<Rightarrow> string \<Rightarrow> session_state" where
  "unassign ss iid uid = ss\<lparr>item_assignments := item_assignments ss - {(iid, uid)}\<rparr>"

definition dep_add :: "session_state \<Rightarrow> string \<Rightarrow> string \<Rightarrow> session_state" where
  "dep_add ss iid depends_on_id =
     (if iid \<noteq> depends_on_id
      then ss\<lparr>item_dependencies := insert (iid, depends_on_id) (item_dependencies ss)\<rparr>
      else ss)"

definition dep_clear_for_item :: "session_state \<Rightarrow> string \<Rightarrow> session_state" where
  "dep_clear_for_item ss iid =
     ss\<lparr>item_dependencies := Set.filter (\<lambda>(i, d). i \<noteq> iid) (item_dependencies ss)\<rparr>"

text \<open>\<^verbatim>\<open>ss_init\<close> (lines 17--26) before the demo data: every container empty.\<close>

definition ss_init :: session_state where
  "ss_init = \<lparr>team_members = [], boards = [], groups = [], items = [],
              item_assignments = {}, item_dependencies = {},
              current_user_id = None, current_board_id = None\<rparr>"

subsection \<open>Blocked status (lines 101--111)\<close>

text \<open>
  \<^verbatim>\<open>deps\<close> is the list of targets of the edges that leave the item; the loop returns
  \<^verbatim>\<open>True\<close> at the first target that \<^verbatim>\<open>items.get\<close> does not find or whose status is not
  \<^verbatim>\<open>"Done"\<close>, and \<^verbatim>\<open>False\<close> after the last one. The loop is \<open>deps_loop\<close>; since the
  list comes from a set, \<open>item_is_blocked\<close> asks the same question of the set of
  targets, and \<open>deps_loop_enumeration\<close> below shows that every enumeration of that set
  gives the loop the same answer.
\<close>

definition dep_unmet :: "(string \<times> item) list \<Rightarrow> string \<Rightarrow> bool" where
  "dep_unmet its dep_id =
     (case map_of its dep_id of None \<Rightarrow> True | Some dep_item \<Rightarrow> status dep_item \<noteq> ''Done'')"

fun deps_loop :: "(string \<times> item) list \<Rightarrow> string list \<Rightarrow> bool" where
  "deps_loop its [] = False"
| "deps_loop its (dep_id # deps) = (if dep_unmet its dep_id then True else deps_loop its deps)"

definition item_is_blocked :: "session_state \<Rightarrow> string \<Rightarrow> bool" where
  "item_is_blocked ss iid =
     (let deps = snd ` Set.filter (\<lambda>(i, d). i = iid) (item_dependencies ss)
      in if deps = {} then False else (\<exists>dep_id \<in> deps. dep_unmet (items ss) dep_id))"

subsection \<open>Deleting items (lines 346--352 and 229--236)\<close>

text \<open>
  The Delete button of the Table tab, for the listed item \<^verbatim>\<open>it\<close>: three statements, one
  after the other, none of which can raise, followed by a rerun of the script. Nothing
  reads the session between the three statements, so the function is the state after the
  third one. All three use \<^verbatim>\<open>it["id"]\<close>.
\<close>

definition delete_item :: "session_state \<Rightarrow> item \<Rightarrow> session_state" where
  "delete_item ss it =
     ss\<lparr>items := AList.delete (item_id it) (items ss),
        item_assignments := Set.filter (\<lambda>(i, u). i \<noteq> item_id it) (item_assignments ss),
        item_dependencies :=
          Set.filter (\<lambda>(i, d). i \<noteq> item_id it \<and> d \<noteq> item_id it) (item_dependencies ss)\<rparr>"

text \<open>
  "Clear board items": \<^verbatim>\<open>to_del\<close> lists the keys of the items of the current board;
  each is popped, and both relations keep the pairs with no component in \<^verbatim>\<open>to_del\<close>.
\<close>

definition to_del :: "session_state \<Rightarrow> string \<Rightarrow> string list" where
  "to_del ss cb = map fst (filter (\<lambda>(iid, it). board_id it = cb) (items ss))"

definition clear_board_items :: "session_state \<Rightarrow> string \<Rightarrow> session_state" where
  "clear_board_items ss cb =
     (let td = to_del ss cb
      in ss\<lparr>items := fold AList.delete td (items ss),
            item_assignments := Set.filter (\<lambda>(i, u). i \<notin> set td) (item_assignments ss),
            item_dependencies :=
              Set.filter (\<lambda>(i, d). i \<notin> set td \<and> d \<notin> set td) (item_dependencies ss)\<rparr>)"

subsection \<open>Status cycle (lines 12, 113--115) and the Kanban move button (lines 372--376)\<close>

datatype py_error = ValueError

definition STATUS_CHOICES :: "string list" where
  "STATUS_CHOICES = [''Not started'', ''In progress'', ''Blocked'', ''Done'']"

text \<open>\<^verbatim>\<open>list.index\<close>: the position of the first equal element; \<open>None\<close> is the \<^verbatim>\<open>ValueError\<close>.\<close>

fun index_of :: "'a list \<Rightarrow> 'a \<Rightarrow> nat option" where
  "index_of [] y = None"
| "index_of (x # xs) y = (if x = y then Some 0 else map_option Suc (index_of xs y))"

definition next_status :: "string \<Rightarrow> py_error + string" where
  "next_status st =
     (case index_of STATUS_CHOICES st of
        None \<Rightarrow> Inl ValueError
      | Some idx \<Rightarrow> Inr (STATUS_CHOICES ! ((idx + 1) mod length STATUS_CHOICES)))"

text \<open>
  The button of an item shown in lane \<^verbatim>\<open>lane\<close>: \<^verbatim>\<open>disabled = blocked and
  next_status(lane) in ("In progress", "Done")\<close>. The label on the line before already
  calls \<^verbatim>\<open>next_status(lane)\<close>, so its error comes first.
\<close>

definition move_disabled :: "session_state \<Rightarrow> item \<Rightarrow> string \<Rightarrow> py_error + bool" where
  "move_disabled ss it lane =
     (let blocked = item_is_blocked ss (item_id it)
      in case next_status lane of
           Inl e \<Rightarrow> Inl e
         | Inr nxt \<Rightarrow> Inr (blocked \<and> nxt \<in> {''In progress'', ''Done''}))"

subsection \<open>Effort in days (lines 124--133)\<close>

text \<open>\<^verbatim>\<open>a or b\<close> on values that are \<^verbatim>\<open>None\<close> or a date.\<close>

definition py_or :: "'a option \<Rightarrow> 'a option \<Rightarrow> 'a option" where
  "py_or a b = (case a of Some x \<Rightarrow> Some x | None \<Rightarrow> b)"

text \<open>
  The function reads four fields of the dictionary it is given and assigns only to its
  local variables \<^verbatim>\<open>start\<close> and \<^verbatim>\<open>end\<close>. The model returns the number of days together
  with the dictionary as the function leaves it. The four cases are the four outcomes of
  the three \<^verbatim>\<open>if\<close> statements: both absent returns 1 at once, otherwise the absent
  endpoint takes the value of the present one before the subtraction.
\<close>

definition item_effort_days :: "item \<Rightarrow> int \<times> item" where
  "item_effort_days it =
     (let start = py_or (py_or (timeline_start it) (start_date it)) (due_date it);
          end = py_or (py_or (timeline_end it) (due_date it)) (start_date it)
      in case (start, end) of
           (None, None) \<Rightarrow> (1, it)
         | (Some s, None) \<Rightarrow> (max 1 ((s - s) + 1), it)
         | (None, Some e) \<Rightarrow> (max 1 ((e - e) + 1), it)
         | (Some s, Some e) \<Rightarrow> (max 1 ((e - s) + 1), it))"

subsection \<open>Workload tab (lines 246, 413--451)\<close>

text \<open>
  \<^verbatim>\<open>items\<close> is fetched once per run (line 246): the items of the selected board, in
  table order.
\<close>

definition board_items :: "session_state \<Rightarrow> string \<Rightarrow> item list" where
  "board_items ss cb = filter (\<lambda>it. board_id it = cb) (map snd (items ss))"

text \<open>
  Lines 435--442: the range of an item, with \<^verbatim>\<open>date.today()\<close> passed in.
  \<^verbatim>\<open>pd.to_datetime(s).date()\<close> on lines 444--445 gives back the calendar date it is given.
\<close>

definition effective_range :: "date \<Rightarrow> item \<Rightarrow> date \<times> date" where
  "effective_range today it =
     (let s = py_or (py_or (timeline_start it) (start_date it)) (due_date it);
          e = py_or (py_or (timeline_end it) (due_date it)) (start_date it)
      in case (s, e) of
           (None, None) \<Rightarrow> (today, today)
         | (Some s', None) \<Rightarrow> (s', s')
         | (None, Some e') \<Rightarrow> (e', e')
         | (Some s', Some e') \<Rightarrow> (s', e'))"

text \<open>
  Lines 447--450: what one item adds to \<^verbatim>\<open>load\<close>. The values \<^verbatim>\<open>date_range\<close>
  (line 429) and \<^verbatim>\<open>over\<close> (line 446) are computed and never read; they are left out.
\<close>

definition overlap_days :: "date \<Rightarrow> date \<Rightarrow> date \<Rightarrow> date \<Rightarrow> int" where
  "overlap_days s e start end =
     (let days = (if max s start \<le> min e end then (min e end - max s start) + 1 else 0)
      in max 0 days)"

text \<open>The inner loop (lines 432--450) for one member, \<^verbatim>\<open>load\<close> as accumulator.\<close>

fun member_load ::
  "(string \<times> string) set \<Rightarrow> date \<Rightarrow> date \<Rightarrow> date \<Rightarrow> string \<Rightarrow> item list \<Rightarrow> int \<Rightarrow> int" where
  "member_load asg start end today uid [] load = load"
| "member_load asg start end today uid (it # its) load =
     (if (item_id it, uid) \<notin> asg then member_load asg start end today uid its load
      else (case effective_range today it of
              (s, e) \<Rightarrow> member_load asg start end today uid its (load + overlap_days s e start end)))"

text \<open>
  The outer loop (lines 430--451): one row per entry of \<^verbatim>\<open>team_members\<close>, in table
  order, holding the member's name and load. The sorting of the rows for display
  (line 452) is not part of the model.
\<close>

definition workload_rows ::
  "session_state \<Rightarrow> item list \<Rightarrow> date \<Rightarrow> date \<Rightarrow> date \<Rightarrow> (string \<times> int) list" where
  "workload_rows ss its start end today =
     map (\<lambda>(uid, m). (m_name m, member_load (item_assignments ss) start end today uid its 0))
         (team_members ss)"

datatype tab_output = Info string | Warning string | Rows "(string \<times> int) list"

text \<open>Lines 424--451: the range check and the computation, on the items of the board.\<close>

definition workload :: "session_state \<Rightarrow> string \<Rightarrow> date \<Rightarrow> date \<Rightarrow> date \<Rightarrow> tab_output" where
  "workload ss cb start end today =
     (if start > end then Warning ''Start must be before end.''
      else Rows (workload_rows ss (board_items ss cb) start end today))"

text \<open>
  Lines 415--417 around it: a board without items shows a note, and the two date inputs
  and the computation exist only in the other branch.
\<close>

definition workload_tab :: "session_state \<Rightarrow> string \<Rightarrow> date \<Rightarrow> date \<Rightarrow> date \<Rightarrow> tab_output" where
  "workload_tab ss cb start end today =
     (if board_items ss cb = [] then Info ''No items yet.''
      else workload ss cb start end today)"

subsection \<open>The demo data (lines 30--56)\<close>

text \<open>
  \<^verbatim>\<open>seed_demo_data\<close>, with the eleven ids it draws fixed to short names: three
  members, one board, three groups, four items.
\<close>

definition seed_demo_data :: "session_state \<Rightarrow> date \<Rightarrow> session_state" where
  "seed_demo_data ss0 today =
     (let (ss, me) = add_member ss0 ''u1'' ''Alice'' ''alice@team.local'';
          (ss, bob) = add_member ss ''u2'' ''Bob'' ''bob@team.local'';
          (ss, ch) = add_member ss ''u3'' ''Charlie'' ''charlie@team.local'';
          ss = ss\<lparr>current_user_id := Some me\<rparr>;
          (ss, b) = add_board ss ''b1'' ''Sample Project'' ''Internal demo project'';
          ss = ss\<lparr>current_board_id := Some b\<rparr>;
          (ss, g1) = add_group ss ''g1'' b ''Backlog'' 0;
          (ss, g2) = add_group ss ''g2'' b ''In Progress'' 1;
          (ss, g3) = add_group ss ''g3'' b ''Review'' 2;
          (ss, i1) = add_item ss ''i1'' b g1 ''Define requirements'' ''Kickoff with stakeholders''
                       ''Not started'' None None None None (Some me);
          (ss, i2) = add_item ss ''i2'' b g1 ''Wireframes'' ''UX wireframes for core flows''
                       ''Not started'' None None None None (Some me);
          (ss, i3) = add_item ss ''i3'' b g2 ''API skeleton'' ''Set up endpoints''
                       ''In progress'' (Some today) (Some (today + 7))
                       (Some today) (Some (today + 7)) (Some bob);
          (ss, i4) = add_item ss ''i4'' b g3 ''Review architecture'' ''Tech review''
                       ''Blocked'' None None None None (Some ch);
          ss = assign ss i1 me; ss = assign ss i2 me; ss = assign ss i3 bob; ss = assign ss i4 ch
      in dep_add ss i4 i3)"

subsection \<open>The specification's formulas\<close>

text \<open>
  These four definitions follow the words of the specification, not the code: the
  fallback order of the two endpoints, the overlap formula, and the load of a member as
  a sum over the items assigned to that member. The theorems compare them with the
  definitions above.
\<close>

definition spec_start :: "item \<Rightarrow> date option" where
  "spec_start it =
     (case timeline_start it of Some d \<Rightarrow> Some d
      | None \<Rightarrow> (case start_date it of Some d \<Rightarrow> Some d | None \<Rightarrow> due_date it))"

definition spec_end :: "item \<Rightarrow> date option" where
  "spec_end it =
     (case timeline_end it of Some d \<Rightarrow> Some d
      | None \<Rightarrow> (case due_date it of Some d \<Rightarrow> Some d | None \<Rightarrow> start_date it))"

definition spec_overlap :: "date \<Rightarrow> date \<Rightarrow> date \<Rightarrow> date \<Rightarrow> int" where
  "spec_overlap item_start item_end window_start window_end =
     max 0 ((min item_end window_end - max item_start window_start) + 1)"

definition spec_load :: "(string \<times> string) set \<Rightarrow> item list \<Rightarrow> date \<Rightarrow> date \<Rightarrow> date \<Rightarrow> string \<Rightarrow> int" where
  "spec_load asg its today window_start window_end uid =
     sum_list (map (\<lambda>it. case effective_range today it of
                            (item_start, item_end) \<Rightarrow> spec_overlap item_start item_end window_start window_end)
                   (filter (\<lambda>it. (item_id it, uid) \<in> asg) its))"

subsection \<open>Concrete stores\<close>

text \<open>
  Stores built with the program's own operations, for the concrete instances below: the
  scenario of an item \<open>y\<close> that depends on an item \<open>x\<close> of a given status, a store
  with two boards and one member, and the record of the demo item "API skeleton" under a
  given id.
\<close>

definition scenario_store :: "string \<Rightarrow> session_state" where
  "scenario_store st =
     (let (ss, x) = add_item ss_init ''x'' ''b1'' ''g1'' ''X'' [] st None None None None None;
          (ss, y) = add_item ss ''y'' ''b1'' ''g1'' ''Y'' [] ''Not started'' None None None None None
      in dep_add ss y x)"

definition two_boards :: session_state where
  "two_boards =
     (let (ss, m) = add_member ss_init ''u1'' ''M'' ''m@team.local'';
          (ss, b1) = add_board ss ''b1'' ''First'' [];
          (ss, b2) = add_board ss ''b2'' ''Second'' [];
          (ss, g1) = add_group ss ''g1'' b1 ''Backlog'' 0;
          (ss, g2) = add_group ss ''g2'' b2 ''Backlog'' 0;
          (ss, i1) = add_item ss ''i1'' b1 g1 ''Plan'' [] ''Not started'' None None None None (Some m);
          (ss, i2) = add_item ss ''i2'' b2 g2 ''Build'' [] ''Not started'' (Some 5) (Some 20) None None (Some m)
      in assign ss i2 m)"

definition demo_item :: "string \<Rightarrow> item" where
  "demo_item iid = \<lparr>item_id = iid, board_id = ''b1'', group_id = ''g2'', title = ''API skeleton'',
           description = ''Set up endpoints'', status = ''In progress'',
           start_date = Some 100, due_date = Some 107,
           timeline_start = Some 100, timeline_end = Some 107, created_by = Some ''u2''\<rparr>"

section \<open>Theorems\<close>

subsection \<open>Auxiliary facts\<close>

lemmas store_ops = ss_init_def add_member_def add_board_def add_group_def add_item_def
  assign_def dep_add_def

lemma demo_relations:
  "item_assignments (seed_demo_data ss_init t) =
     {(''i1'', ''u1''), (''i2'', ''u1''), (''i3'', ''u2''), (''i4'', ''u3'')}"
  "item_dependencies (seed_demo_data ss_init t) = {(''i4'', ''i3'')}"
  by (auto simp add: seed_demo_data_def store_ops)

lemma demo_lookup:
  "map_of (items (seed_demo_data ss_init t)) ''i3'' =
     Some \<lparr>item_id = ''i3'', board_id = ''b1'', group_id = ''g2'', title = ''API skeleton'',
           description = ''Set up endpoints'', status = ''In progress'',
           start_date = Some t, due_date = Some (t + 7),
           timeline_start = Some t, timeline_end = Some (t + 7), created_by = Some ''u2''\<rparr>"
  "map_of (items (seed_demo_data ss_init t)) ''i1'' =
     Some \<lparr>item_id = ''i1'', board_id = ''b1'', group_id = ''g1'', title = ''Define requirements'',
           description = ''Kickoff with stakeholders'', status = ''Not started'',
           start_date = None, due_date = None,
           timeline_start = None, timeline_end = None, created_by = Some ''u1''\<rparr>"
  "map_of (items (seed_demo_data ss_init t)) ''ghost'' = None"
  "map_of (team_members (seed_demo_data ss_init t)) ''nobody'' = None"
  by (simp_all add: seed_demo_data_def store_ops)

lemma scenario_facts:
  "item_dependencies (scenario_store st) = {(''y'', ''x'')}"
  "\<exists>it. map_of (items (scenario_store st)) ''x'' = Some it \<and> status it = st"
  by (simp_all add: scenario_store_def store_ops)

lemma two_boards_facts:
  "team_members two_boards = [(''u1'', \<lparr>m_id = ''u1'', m_name = ''M'', m_email = ''m@team.local''\<rparr>)]"
  "item_assignments two_boards = {(''i2'', ''u1'')}"
  "map snd (items two_boards) =
     [\<lparr>item_id = ''i1'', board_id = ''b1'', group_id = ''g1'', title = ''Plan'', description = [],
       status = ''Not started'', start_date = None, due_date = None,
       timeline_start = None, timeline_end = None, created_by = Some ''u1''\<rparr>,
      \<lparr>item_id = ''i2'', board_id = ''b2'', group_id = ''g2'', title = ''Build'', description = [],
       status = ''Not started'', start_date = Some 5, due_date = Some 20,
       timeline_start = None, timeline_end = None, created_by = Some ''u1''\<rparr>]"
  by (simp_all add: two_boards_def store_ops)

lemma dep_targets: "snd ` Set.filter (\<lambda>(i, d). i = iid) R = {d. (iid, d) \<in> R}"
  by force

lemma blocked_iff_unmet:
  "item_is_blocked ss iid = (\<exists>d. (iid, d) \<in> item_dependencies ss \<and> dep_unmet (items ss) d)"
  unfolding item_is_blocked_def dep_targets Let_def by auto

lemma demo_blocked:
  "item_is_blocked (seed_demo_data ss_init t) ''i4''"
  "\<not> item_is_blocked (seed_demo_data ss_init t) ''i3''"
  by (simp_all add: blocked_iff_unmet demo_relations demo_lookup dep_unmet_def)

text \<open>
  The loop of \<^verbatim>\<open>item_is_blocked\<close> on any list that enumerates the targets of the
  item's edges gives the answer of the set-based definition.
\<close>

lemma deps_loop_iff: "deps_loop its deps = (\<exists>dep_id \<in> set deps. dep_unmet its dep_id)"
  by (induction deps) auto

lemma deps_loop_enumeration:
  assumes "set deps = snd ` Set.filter (\<lambda>(i, d). i = iid) (item_dependencies ss)"
  shows "(if deps = [] then False else deps_loop (items ss) deps) = item_is_blocked ss iid"
  using assms by (auto simp: item_is_blocked_def deps_loop_iff Let_def)

lemma delete_as_filter: "AList.delete k al = filter (\<lambda>(k', v). k' \<noteq> k) al"
  by (induction al) auto

lemma map_of_fold_delete:
  "map_of (fold AList.delete ks al) k = (if k \<in> set ks then None else map_of al k)"
  by (induction ks arbitrary: al) (auto simp: AList.delete_conv')

lemma py_or_start: "py_or (py_or (timeline_start it) (start_date it)) (due_date it) = spec_start it"
  by (simp add: py_or_def spec_start_def split: option.splits)

lemma py_or_end: "py_or (py_or (timeline_end it) (due_date it)) (start_date it) = spec_end it"
  by (simp add: py_or_def spec_end_def split: option.splits)

lemma index_of_None: "(index_of xs y = None) = (y \<notin> set xs)"
  by (induction xs) auto

lemma index_of_Some: "index_of xs y = Some i \<Longrightarrow> i < length xs \<and> xs ! i = y"
  by (induction xs arbitrary: i) (auto split: if_splits)

lemma next_status_cycle:
  "next_status ''Not started'' = Inr ''In progress''"
  "next_status ''In progress'' = Inr ''Blocked''"
  "next_status ''Blocked'' = Inr ''Done''"
  "next_status ''Done'' = Inr ''Not started''"
  by (simp_all add: next_status_def STATUS_CHOICES_def)

lemma overlap_days_spec: "overlap_days s e start end = spec_overlap s e start end"
proof (cases "max s start \<le> min e end")
  case True
  then show ?thesis by (simp only: overlap_days_def spec_overlap_def Let_def if_True)
next
  case False
  then have "(min e end - max s start) + 1 \<le> 0" by linarith
  then have "max 0 ((min e end - max s start) + 1) = 0" by (rule max_absorb1)
  with False show ?thesis by (simp only: overlap_days_def spec_overlap_def Let_def if_False max.idem)
qed

lemma member_load_sum:
  "member_load asg start end today uid its load = load + spec_load asg its today start end uid"
  by (induction its arbitrary: load) (auto simp: spec_load_def overlap_days_spec split: prod.splits)

lemma demo_workload:
  "workload_rows (seed_demo_data ss_init 100) (board_items (seed_demo_data ss_init 100) ''b1'') 86 128 100
     = [(''Alice'', 2), (''Bob'', 8), (''Charlie'', 1)]"
  by (simp add: seed_demo_data_def store_ops workload_rows_def board_items_def
                effective_range_def py_or_def overlap_days_def)

lemma workload_tab_no_items:
  "board_items ss cb = [] \<Longrightarrow> workload_tab ss cb start end today = Info ''No items yet.''"
  by (simp add: workload_tab_def)

subsection \<open>Blocked status\<close>

text \<open>
  C1. An item with no outgoing dependency edge is not blocked. An item with at least one
  outgoing edge is not blocked exactly when every target of its edges is in the item
  table with status \<^verbatim>\<open>"Done"\<close>; it is blocked as soon as one target is missing from
  the table or has another status.
\<close>

theorem item_is_blocked_iff:
  "((\<forall>d. (iid, d) \<notin> item_dependencies ss) \<longrightarrow> \<not> item_is_blocked ss iid)
   \<and> ((\<exists>d. (iid, d) \<in> item_dependencies ss) \<longrightarrow>
        (\<not> item_is_blocked ss iid) =
        (\<forall>d. (iid, d) \<in> item_dependencies ss \<longrightarrow>
             (\<exists>dep_item. map_of (items ss) d = Some dep_item \<and> status dep_item = ''Done'')))
   \<and> ((\<exists>d. (iid, d) \<in> item_dependencies ss \<and>
            (map_of (items ss) d = None \<or>
             (\<exists>dep_item. map_of (items ss) d = Some dep_item \<and> status dep_item \<noteq> ''Done'')))
        \<longrightarrow> item_is_blocked ss iid)"
  unfolding blocked_iff_unmet dep_unmet_def
  by (auto split: option.splits)

theorem item_is_blocked_iff_witness:
  "(\<forall>d. (''i3'', d) \<notin> item_dependencies (seed_demo_data ss_init 100))
   \<and> \<not> item_is_blocked (seed_demo_data ss_init 100) ''i3''
   \<and> (''i4'', ''i3'') \<in> item_dependencies (seed_demo_data ss_init 100)
   \<and> item_is_blocked (seed_demo_data ss_init 100) ''i4''
   \<and> item_is_blocked (scenario_store ''In progress'') ''y''
   \<and> \<not> item_is_blocked (scenario_store ''Done'') ''y''"
  using item_is_blocked_iff [of "''i3''" "seed_demo_data ss_init 100"]
        item_is_blocked_iff [of "''i4''" "seed_demo_data ss_init 100"]
        item_is_blocked_iff [of "''y''" "scenario_store ''In progress''"]
        item_is_blocked_iff [of "''y''" "scenario_store ''Done''"]
        scenario_facts(2) [of "''In progress''"] scenario_facts(2) [of "''Done''"]
  by (auto simp add: demo_relations demo_lookup scenario_facts(1))

subsection \<open>Effort in days\<close>

text \<open>
  C2. With start the first present of \<^verbatim>\<open>timeline_start\<close>, \<^verbatim>\<open>start_date\<close>,
  \<^verbatim>\<open>due_date\<close> and end the first present of \<^verbatim>\<open>timeline_end\<close>, \<^verbatim>\<open>due_date\<close>,
  \<^verbatim>\<open>start_date\<close>, \<^verbatim>\<open>item_effort_days\<close> returns \<open>max 1 (end - start + 1)\<close> when both
  are present, the same formula with the present endpoint in place of the missing one
  when only one is, and 1 when all four fields are absent. The result is never below 1,
  and the item comes back as it went in.
\<close>

theorem item_effort_days_spec:
  "(\<forall>s e. spec_start it = Some s \<and> spec_end it = Some e \<longrightarrow>
        fst (item_effort_days it) = max 1 ((e - s) + 1))
   \<and> (\<forall>s. spec_start it = Some s \<and> spec_end it = None \<longrightarrow>
        fst (item_effort_days it) = max 1 ((s - s) + 1))
   \<and> (\<forall>e. spec_start it = None \<and> spec_end it = Some e \<longrightarrow>
        fst (item_effort_days it) = max 1 ((e - e) + 1))
   \<and> (timeline_start it = None \<and> start_date it = None \<and> due_date it = None
        \<and> timeline_end it = None \<longrightarrow> fst (item_effort_days it) = 1)
   \<and> 1 \<le> fst (item_effort_days it)
   \<and> snd (item_effort_days it) = it"
  unfolding item_effort_days_def py_or_start py_or_end Let_def
  by (cases "spec_start it"; cases "spec_end it") (auto simp: spec_start_def spec_end_def)

theorem item_effort_days_spec_witness:
  "spec_start (demo_item ''i3'') = Some 100 \<and> spec_end (demo_item ''i3'') = Some 107
   \<and> item_effort_days (demo_item ''i3'') = (8, demo_item ''i3'')
   \<and> fst (item_effort_days ((demo_item ''i3'')\<lparr>start_date := None, due_date := None,
                                  timeline_start := None, timeline_end := None\<rparr>)) = 1
   \<and> spec_start ((demo_item ''i3'')\<lparr>timeline_end := None, due_date := None, start_date := None\<rparr>) = Some 100
   \<and> spec_end ((demo_item ''i3'')\<lparr>timeline_end := None, due_date := None, start_date := None\<rparr>) = None
   \<and> fst (item_effort_days ((demo_item ''i3'')\<lparr>timeline_end := None, due_date := None, start_date := None\<rparr>)) = 1"
  using item_effort_days_spec [of "demo_item ''i3''"]
        item_effort_days_spec [of "(demo_item ''i3'')\<lparr>start_date := None, due_date := None,
                                  timeline_start := None, timeline_end := None\<rparr>"]
        item_effort_days_spec [of "(demo_item ''i3'')\<lparr>timeline_end := None, due_date := None, start_date := None\<rparr>"]
  by (simp add: demo_item_def spec_start_def spec_end_def prod_eq_iff)

subsection \<open>Deleting an item\<close>

text \<open>
  C3. After the Delete handler has run for an item with id \<open>x\<close>, the item table has no
  entry for \<open>x\<close>, no assignment pair has \<open>x\<close> as its item, and no dependency edge has
  \<open>x\<close> at either end. Assignment pairs of other items and dependency edges between
  other items are in the relations exactly as before, the other rows of the item table
  are unchanged and in the same order, and the member, board and group tables and the two
  current ids are unchanged. The handler is one function from store to store: the state
  it returns is the only one a later run of the script sees.
\<close>

theorem delete_item_removes_all_edges:
  "map_of (items (delete_item ss it)) (item_id it) = None
   \<and> (\<forall>m. (item_id it, m) \<notin> item_assignments (delete_item ss it))
   \<and> (\<forall>j. (item_id it, j) \<notin> item_dependencies (delete_item ss it)
          \<and> (j, item_id it) \<notin> item_dependencies (delete_item ss it))
   \<and> (\<forall>i u. i \<noteq> item_id it \<longrightarrow>
          ((i, u) \<in> item_assignments (delete_item ss it)) = ((i, u) \<in> item_assignments ss))
   \<and> (\<forall>i d. i \<noteq> item_id it \<and> d \<noteq> item_id it \<longrightarrow>
          ((i, d) \<in> item_dependencies (delete_item ss it)) = ((i, d) \<in> item_dependencies ss))
   \<and> items (delete_item ss it) = filter (\<lambda>(k, v). k \<noteq> item_id it) (items ss)
   \<and> (\<forall>k. k \<noteq> item_id it \<longrightarrow> map_of (items (delete_item ss it)) k = map_of (items ss) k)
   \<and> team_members (delete_item ss it) = team_members ss
   \<and> boards (delete_item ss it) = boards ss
   \<and> groups (delete_item ss it) = groups ss
   \<and> current_user_id (delete_item ss it) = current_user_id ss
   \<and> current_board_id (delete_item ss it) = current_board_id ss"
proof -
  have its: "items (delete_item ss it) = AList.delete (item_id it) (items ss)"
    by (simp add: delete_item_def)
  have asg: "item_assignments (delete_item ss it) = {(i, u). (i, u) \<in> item_assignments ss \<and> i \<noteq> item_id it}"
    by (auto simp: delete_item_def)
  have dep: "item_dependencies (delete_item ss it) =
      {(i, d). (i, d) \<in> item_dependencies ss \<and> i \<noteq> item_id it \<and> d \<noteq> item_id it}"
    by (auto simp: delete_item_def)
  have rest: "team_members (delete_item ss it) = team_members ss"
    "boards (delete_item ss it) = boards ss" "groups (delete_item ss it) = groups ss"
    "current_user_id (delete_item ss it) = current_user_id ss"
    "current_board_id (delete_item ss it) = current_board_id ss"
    by (simp_all add: delete_item_def)
  have gone: "map_of (items (delete_item ss it)) (item_id it) = None"
    and kept: "\<forall>k. k \<noteq> item_id it \<longrightarrow> map_of (items (delete_item ss it)) k = map_of (items ss) k"
    by (simp_all add: its AList.delete_conv')
  have order: "items (delete_item ss it) = filter (\<lambda>(k, v). k \<noteq> item_id it) (items ss)"
    by (simp add: its delete_as_filter)
  show ?thesis
    using gone kept order by (simp add: asg dep rest)
qed

theorem delete_item_removes_all_edges_witness:
  "map_of (items (seed_demo_data ss_init 100)) ''i3'' = Some (demo_item ''i3'')
   \<and> map_of (items (delete_item (seed_demo_data ss_init 100) (demo_item ''i3''))) ''i3'' = None
   \<and> (''i3'', ''u2'') \<in> item_assignments (seed_demo_data ss_init 100)
   \<and> (''i3'', ''u2'') \<notin> item_assignments (delete_item (seed_demo_data ss_init 100) (demo_item ''i3''))
   \<and> (''i4'', ''i3'') \<in> item_dependencies (seed_demo_data ss_init 100)
   \<and> (''i4'', ''i3'') \<notin> item_dependencies (delete_item (seed_demo_data ss_init 100) (demo_item ''i3''))
   \<and> ''i1'' \<noteq> ''i3''
   \<and> (''i1'', ''u1'') \<in> item_assignments (delete_item (seed_demo_data ss_init 100) (demo_item ''i3''))
   \<and> map_of (items (delete_item (seed_demo_data ss_init 100) (demo_item ''i3''))) ''i1''
       = map_of (items (seed_demo_data ss_init 100)) ''i1''"
proof -
  have id: "item_id (demo_item ''i3'') = ''i3''"
    by (simp add: demo_item_def)
  note del = delete_item_removes_all_edges [of "seed_demo_data ss_init 100" "demo_item ''i3''",
      unfolded id]
  let ?after = "delete_item (seed_demo_data ss_init 100) (demo_item ''i3'')"
  note c2 = del [THEN conjunct2]
  note c3 = c2 [THEN conjunct2]
  note c4 = c3 [THEN conjunct2]
  note c7 = c4 [THEN conjunct2, THEN conjunct2, THEN conjunct2]
  note gone = del [THEN conjunct1]
  note asg_gone = c2 [THEN conjunct1]
  note dep_gone = c3 [THEN conjunct1]
  note asg_kept = c4 [THEN conjunct1]
  note kept = c7 [THEN conjunct1]
  have before: "map_of (items (seed_demo_data ss_init 100)) ''i3'' = Some (demo_item ''i3'')"
    by (simp add: demo_lookup demo_item_def)
  have "(''i1'', ''u1'') \<in> item_assignments ?after"
    using asg_kept by (simp add: demo_relations)
  moreover have "map_of (items ?after) ''i1'' = map_of (items (seed_demo_data ss_init 100)) ''i1''"
    using kept by simp
  ultimately show ?thesis
    using before gone asg_gone dep_gone by (simp add: demo_relations)
qed

text \<open>
  "Clear board items" leaves nothing behind for any of the items it deletes either.
\<close>

lemma clear_board_items_no_dangling:
  assumes "iid \<in> set (to_del ss cb)"
  shows "map_of (items (clear_board_items ss cb)) iid = None"
    and "(iid, m) \<notin> item_assignments (clear_board_items ss cb)"
    and "(iid, j) \<notin> item_dependencies (clear_board_items ss cb)"
    and "(j, iid) \<notin> item_dependencies (clear_board_items ss cb)"
  using assms by (auto simp: clear_board_items_def Let_def map_of_fold_delete)

subsection \<open>Workload\<close>

text \<open>
  C4 (as the code has it). For a window with \<open>window_start \<le> window_end\<close>, the result
  has one row per member, in table order, and the member's load is the sum, over the
  items of the selected board that are assigned to the member, of
  \<open>max 0 (min item_end window_end - max item_start window_start + 1)\<close>, where the range
  of an item with no date at all is today to today. An item whose overlap start is after
  its overlap end adds 0, and a member all of whose assigned items on the board add 0
  has load 0 and still has a row. Items of other boards are not counted.
\<close>

theorem workload_board_scoped:
  "(window_start \<le> window_end \<longrightarrow>
      workload ss cb window_start window_end today =
        Rows (map (\<lambda>(uid, m). (m_name m,
                     spec_load (item_assignments ss) (board_items ss cb) today window_start window_end uid))
                  (team_members ss)))
   \<and> (max s window_start > min e window_end \<longrightarrow> spec_overlap s e window_start window_end = 0)
   \<and> ((\<forall>it \<in> set its. (item_id it, uid) \<in> asg \<longrightarrow>
          (case effective_range today it of (s, e) \<Rightarrow> spec_overlap s e window_start window_end) = 0)
        \<longrightarrow> spec_load asg its today window_start window_end uid = 0)"
proof -
  have a: "window_start \<le> window_end \<longrightarrow>
      workload ss cb window_start window_end today =
        Rows (map (\<lambda>(uid, m). (m_name m,
                     spec_load (item_assignments ss) (board_items ss cb) today window_start window_end uid))
                  (team_members ss))"
    by (simp add: workload_def workload_rows_def member_load_sum)
  have b: "max s window_start > min e window_end \<longrightarrow> spec_overlap s e window_start window_end = 0"
  proof
    assume "max s window_start > min e window_end"
    then have "(min e window_end - max s window_start) + 1 \<le> 0" by linarith
    then show "spec_overlap s e window_start window_end = 0"
      unfolding spec_overlap_def by (rule max_absorb1)
  qed
  have c: "(\<forall>it \<in> set its. (item_id it, uid) \<in> asg \<longrightarrow>
          (case effective_range today it of (s, e) \<Rightarrow> spec_overlap s e window_start window_end) = 0)
        \<longrightarrow> spec_load asg its today window_start window_end uid = 0"
    unfolding spec_load_def by (induction its) auto
  from a b c show ?thesis by blast
qed

theorem workload_board_scoped_witness:
  "(1::int) \<le> 10
   \<and> workload two_boards ''b2'' 1 10 1 = Rows [(''M'', 6)]
   \<and> max (20::int) 1 > min 25 10 \<and> spec_overlap 20 25 1 10 = 0
   \<and> spec_load (item_assignments two_boards) (board_items two_boards ''b1'') 1 1 10 ''u1'' = 0"
  using workload_board_scoped [of 1 10 two_boards "''b2''" 1 20 25
          "board_items two_boards ''b1''" "''u1''" "item_assignments two_boards"]
  by (simp add: two_boards_facts board_items_def spec_load_def
                effective_range_def py_or_def spec_overlap_def)

text \<open>
  The specification's sentence sums over every item assigned to the member. In the store
  \<open>two_boards\<close> member \<open>u1\<close> is assigned one item, on board \<open>b2\<close>, with range day 5 to
  day 20; over the window day 1 to day 10 that sum is 6, and the workload shown for
  board \<open>b1\<close> gives the member 0.
\<close>

theorem workload_other_board_counterexample:
  "(''i2'', ''u1'') \<in> item_assignments two_boards
   \<and> spec_load (item_assignments two_boards) (map snd (items two_boards)) 1 1 10 ''u1'' = 6
   \<and> workload two_boards ''b1'' 1 10 1 = Rows [(''M'', 0)]"
  by (simp add: two_boards_facts workload_def workload_rows_def board_items_def spec_load_def
                effective_range_def py_or_def spec_overlap_def overlap_days_def)

subsection \<open>Status cycle and the move button\<close>

text \<open>
  C5. \<^verbatim>\<open>next_status\<close> sends Not started to In progress, In progress to Blocked,
  Blocked to Done and Done back to Not started. The move button of an item is disabled
  exactly when the item is blocked and the next status of its lane is In progress or
  Done: in the lanes Not started and Blocked it is disabled iff the item is blocked, and
  in the lanes In progress (next: Blocked) and Done (next: Not started) it is never
  disabled.
\<close>

theorem status_cycle_and_move_gate:
  "next_status ''Not started'' = Inr ''In progress''
   \<and> next_status ''In progress'' = Inr ''Blocked''
   \<and> next_status ''Blocked'' = Inr ''Done''
   \<and> next_status ''Done'' = Inr ''Not started''
   \<and> (\<forall>nxt. next_status lane = Inr nxt \<longrightarrow>
         move_disabled ss it lane =
           Inr (item_is_blocked ss (item_id it) \<and> (nxt = ''In progress'' \<or> nxt = ''Done'')))
   \<and> move_disabled ss it ''Not started'' = Inr (item_is_blocked ss (item_id it))
   \<and> move_disabled ss it ''In progress'' = Inr False
   \<and> move_disabled ss it ''Blocked'' = Inr (item_is_blocked ss (item_id it))
   \<and> move_disabled ss it ''Done'' = Inr False"
  by (simp add: move_disabled_def next_status_cycle Let_def)

theorem status_cycle_and_move_gate_witness:
  "next_status ''Blocked'' = Inr ''Done''
   \<and> item_is_blocked (seed_demo_data ss_init 100) ''i4''
   \<and> move_disabled (seed_demo_data ss_init 100) (demo_item ''i4'') ''Blocked'' = Inr True
   \<and> move_disabled (seed_demo_data ss_init 100) (demo_item ''i4'') ''In progress'' = Inr False
   \<and> move_disabled (seed_demo_data ss_init 100) (demo_item ''i3'') ''Blocked'' = Inr False"
  using status_cycle_and_move_gate [of "''Blocked''" "seed_demo_data ss_init 100" "demo_item ''i4''"]
        status_cycle_and_move_gate [of "''Blocked''" "seed_demo_data ss_init 100" "demo_item ''i3''"]
  by (simp add: demo_blocked demo_item_def)

subsection \<open>The range check of the workload\<close>

text \<open>
  C6. With \<open>window_start > window_end\<close> the workload is the warning and carries no
  rows: the per-member loop is not entered. With \<open>window_start \<le> window_end\<close> it is
  the rows that the loop computes.
\<close>

theorem workload_range_check:
  "(window_start > window_end \<longrightarrow>
      workload ss cb window_start window_end today = Warning ''Start must be before end.'')
   \<and> (window_start \<le> window_end \<longrightarrow>
        workload ss cb window_start window_end today =
          Rows (workload_rows ss (board_items ss cb) window_start window_end today))"
  by (simp add: workload_def)

theorem workload_range_check_witness:
  "(128::int) > 86
   \<and> workload (seed_demo_data ss_init 100) ''b1'' 128 86 100 = Warning ''Start must be before end.''
   \<and> workload (seed_demo_data ss_init 100) ''b1'' 86 128 100
       = Rows [(''Alice'', 2), (''Bob'', 8), (''Charlie'', 1)]"
  using workload_range_check [of 128 86 "seed_demo_data ss_init 100" "''b1''" 100]
        workload_range_check [of 86 128 "seed_demo_data ss_init 100" "''b1''" 100]
  by (simp add: demo_workload)

subsection \<open>References to ids that do not exist\<close>

text \<open>
  C7 (as the code has it). No helper checks that the ids it is given exist, and none has
  an error to give: \<^verbatim>\<open>assign\<close> inserts its pair whatever the two ids are, \<^verbatim>\<open>dep_add\<close>
  inserts its edge whenever the two ids differ, \<^verbatim>\<open>add_group\<close> and \<^verbatim>\<open>add_item\<close> store
  the record with the board and group ids they are given; the tables are not consulted
  and not changed by \<^verbatim>\<open>assign\<close> and \<^verbatim>\<open>dep_add\<close>. An edge to a target that is not in
  the item table is not an error: it makes the item blocked.
\<close>

theorem mutators_do_not_check_references:
  "item_assignments (assign ss i u) = insert (i, u) (item_assignments ss)
   \<and> (i \<noteq> d \<longrightarrow> item_dependencies (dep_add ss i d) = insert (i, d) (item_dependencies ss))
   \<and> map_of (groups (fst (add_group ss gid bid nm pos))) gid =
       Some \<lparr>g_id = gid, g_board_id = bid, g_name = nm, g_position = pos\<rparr>
   \<and> (\<exists>it. map_of (items (fst (add_item ss iid bid gid ttl desc st sd dd ts te cby))) iid = Some it
          \<and> board_id it = bid \<and> group_id it = gid \<and> created_by it = cby)
   \<and> items (assign ss i u) = items ss \<and> team_members (assign ss i u) = team_members ss
   \<and> items (dep_add ss i d) = items ss
   \<and> ((i, d) \<in> item_dependencies ss \<and> map_of (items ss) d = None \<longrightarrow> item_is_blocked ss i)"
proof -
  have blocked: "(i, d) \<in> item_dependencies ss \<and> map_of (items ss) d = None \<longrightarrow> item_is_blocked ss i"
    unfolding blocked_iff_unmet dep_unmet_def by auto
  show ?thesis
    using blocked
    by (simp add: assign_def dep_add_def add_group_def add_item_def AList.update_conv')
qed

theorem mutators_do_not_check_references_witness:
  "map_of (items (seed_demo_data ss_init 100)) ''ghost'' = None
   \<and> item_assignments (assign (seed_demo_data ss_init 100) ''ghost'' ''nobody'')
       = insert (''ghost'', ''nobody'') (item_assignments (seed_demo_data ss_init 100))
   \<and> ''i1'' \<noteq> ''ghost''
   \<and> (''i1'', ''ghost'') \<in> item_dependencies (dep_add (seed_demo_data ss_init 100) ''i1'' ''ghost'')
   \<and> item_is_blocked (dep_add (seed_demo_data ss_init 100) ''i1'' ''ghost'') ''i1''"
  using mutators_do_not_check_references
          [of "seed_demo_data ss_init 100" "''ghost''" "''nobody''" "''ghost''"]
        mutators_do_not_check_references
          [of "seed_demo_data ss_init 100" "''i1''" "''nobody''" "''ghost''"]
        mutators_do_not_check_references
          [of "dep_add (seed_demo_data ss_init 100) ''i1'' ''ghost''" "''i1''" "''nobody''" "''ghost''"]
  by (simp add: demo_lookup)

text \<open>
  The specification has \<^verbatim>\<open>assign\<close> report an item id that does not exist. The demo
  data has no item \<open>ghost\<close> and no member \<open>nobody\<close>, and \<^verbatim>\<open>assign\<close> puts the pair into
  the relation.
\<close>

theorem assign_ghost_item_counterexample:
  "map_of (items (seed_demo_data ss_init 100)) ''ghost'' = None
   \<and> map_of (team_members (seed_demo_data ss_init 100)) ''nobody'' = None
   \<and> (''ghost'', ''nobody'') \<in> item_assignments (assign (seed_demo_data ss_init 100) ''ghost'' ''nobody'')"
  by (simp add: demo_lookup assign_def)

subsection \<open>Adding a dependency\<close>

text \<open>
  C8. \<^verbatim>\<open>dep_add\<close> with both ids equal returns the store as it was (there is no error
  branch to take); with different ids it inserts the edge into the set, so adding an
  edge that is already there changes nothing, and adding the same edge twice is the
  same as adding it once.
\<close>

theorem dep_add_self_noop_and_idempotent:
  "dep_add ss i i = ss
   \<and> (i \<noteq> d \<longrightarrow> item_dependencies (dep_add ss i d) = insert (i, d) (item_dependencies ss))
   \<and> ((i, d) \<in> item_dependencies ss \<longrightarrow> dep_add ss i d = ss)
   \<and> dep_add (dep_add ss i d) i d = dep_add ss i d"
  by (simp add: dep_add_def insert_absorb)

theorem dep_add_self_noop_and_idempotent_witness:
  "''i4'' \<noteq> ''i3''
   \<and> item_dependencies (dep_add ss_init ''i4'' ''i3'') = {(''i4'', ''i3'')}
   \<and> (''i4'', ''i3'') \<in> item_dependencies (dep_add ss_init ''i4'' ''i3'')
   \<and> dep_add (dep_add ss_init ''i4'' ''i3'') ''i4'' ''i3'' = dep_add ss_init ''i4'' ''i3''"
  using dep_add_self_noop_and_idempotent [of "dep_add ss_init ''i4'' ''i3''" "''i4''" "''i3''"]
        dep_add_self_noop_and_idempotent [of ss_init "''i4''" "''i3''"]
  by (simp add: ss_init_def)

subsection \<open>The domain of \<^verbatim>\<open>next_status\<close>\<close>

text \<open>
  C10. On each of the four statuses of the cycle \<^verbatim>\<open>next_status\<close> returns a status of
  the cycle; on every other string \<^verbatim>\<open>STATUS_CHOICES.index\<close> raises \<^verbatim>\<open>ValueError\<close> and
  no value is returned.
\<close>

theorem next_status_domain:
  "(s \<in> set STATUS_CHOICES \<longrightarrow> (\<exists>s'. next_status s = Inr s' \<and> s' \<in> set STATUS_CHOICES))
   \<and> (s \<notin> set STATUS_CHOICES \<longrightarrow> next_status s = Inl ValueError)"
proof (cases "index_of STATUS_CHOICES s")
  case None
  then have "s \<notin> set STATUS_CHOICES" by (simp add: index_of_None)
  with None show ?thesis by (simp add: next_status_def)
next
  case (Some idx)
  have len: "length STATUS_CHOICES = 4" by (simp add: STATUS_CHOICES_def)
  have "s \<in> set STATUS_CHOICES" using Some index_of_None [of STATUS_CHOICES s] by simp
  moreover have "STATUS_CHOICES ! ((idx + 1) mod length STATUS_CHOICES) \<in> set STATUS_CHOICES"
    by (rule nth_mem) (simp add: len)
  ultimately show ?thesis using Some by (simp add: next_status_def)
qed

theorem next_status_domain_witness:
  "''Done'' \<in> set STATUS_CHOICES \<and> next_status ''Done'' = Inr ''Not started''
   \<and> ''done'' \<notin> set STATUS_CHOICES \<and> next_status ''done'' = Inl ValueError"
  using next_status_domain [of "''Done''"] next_status_domain [of "''done''"]
  by (auto simp add: STATUS_CHOICES_def next_status_def)

end
